theory Spec2Isabelle
  imports Complex_Main "HOL-Library.Multiset"
begin

section \<open>Values of the host language and of the data-frame library\<close>

text \<open>
  Exceptions of the Python code are values: a function that can raise returns
  \<open>error + 'a\<close>, with \<open>Inl\<close> the exception.
\<close>

datatype error = KeyError | ZeroDivisionError | IndexError

text \<open>
  A float cell of a data frame. \<open>NaN\<close> is the missing value; every comparison with it is
  false. Finite floats are modelled by the real they denote, with exact arithmetic.
\<close>

datatype pyfloat = NaN | NegInf | Fin real | PosInf

definition pf_gt :: "pyfloat \<Rightarrow> real \<Rightarrow> bool" where
  "pf_gt x c = (case x of NaN \<Rightarrow> False | NegInf \<Rightarrow> False | Fin r \<Rightarrow> c < r | PosInf \<Rightarrow> True)"

definition pf_le :: "pyfloat \<Rightarrow> real \<Rightarrow> bool" where
  "pf_le x c = (case x of NaN \<Rightarrow> False | NegInf \<Rightarrow> True | Fin r \<Rightarrow> r \<le> c | PosInf \<Rightarrow> False)"

text \<open>Float division of two integer cells; a zero divisor gives an infinity or NaN, never an exception.\<close>

definition pf_div :: "int \<Rightarrow> int \<Rightarrow> pyfloat" where
  "pf_div a b =
     (if b = 0 then (if a = 0 then NaN else if 0 < a then PosInf else NegInf)
      else Fin (real_of_int a / real_of_int b))"

definition pf_mul :: "pyfloat \<Rightarrow> real \<Rightarrow> pyfloat" where
  "pf_mul x c =
     (case x of
        NaN \<Rightarrow> NaN
      | Fin r \<Rightarrow> Fin (r * c)
      | PosInf \<Rightarrow> (if 0 < c then PosInf else if c < 0 then NegInf else NaN)
      | NegInf \<Rightarrow> (if 0 < c then NegInf else if c < 0 then PosInf else NaN))"

text \<open>Rounding to the nearest integer, halves to the even neighbour.\<close>

definition rint :: "real \<Rightarrow> int" where
  "rint x =
     (let f = \<lfloor>x\<rfloor>; d = x - real_of_int f
      in if d < 1 / 2 then f else if 1 / 2 < d then f + 1 else if even f then f else f + 1)"

text \<open>\<open>round(x, 1)\<close> on a float column.\<close>

definition pf_round1 :: "pyfloat \<Rightarrow> pyfloat" where
  "pf_round1 x = (case x of Fin r \<Rightarrow> Fin (real_of_int (rint (r * 10)) / 10) | _ \<Rightarrow> x)"

text \<open>
  \<open>sort_values\<close> is modelled as a stable sort: \<open>le x y\<close> says that \<open>x\<close> may stand
  before \<open>y\<close>, and rows that tie keep their order.
\<close>

fun insort_by :: "('a \<Rightarrow> 'a \<Rightarrow> bool) \<Rightarrow> 'a \<Rightarrow> 'a list \<Rightarrow> 'a list" where
  "insort_by le x [] = [x]"
| "insort_by le x (y # ys) = (if le x y then x # y # ys else y # insort_by le x ys)"

definition sort_by :: "('a \<Rightarrow> 'a \<Rightarrow> bool) \<Rightarrow> 'a list \<Rightarrow> 'a list" where
  "sort_by le xs = foldr (insort_by le) xs []"

text \<open>Descending order of a float column, NaN last.\<close>

definition pf_desc :: "pyfloat \<Rightarrow> pyfloat \<Rightarrow> bool" where
  "pf_desc a b =
     (case b of
        NaN \<Rightarrow> True
      | NegInf \<Rightarrow> a \<noteq> NaN
      | Fin s \<Rightarrow> (case a of PosInf \<Rightarrow> True | Fin r \<Rightarrow> s \<le> r | _ \<Rightarrow> False)
      | PosInf \<Rightarrow> a = PosInf)"

section \<open>Dates\<close>

text \<open>
  A naive \<open>datetime\<close>. Two datetimes compare by their position on the time line, counted
  in microseconds from the proleptic Gregorian ordinal; a \<open>timedelta\<close> is a number of
  microseconds.
\<close>

record datetime =
  year :: int
  month :: int
  day :: int
  hour :: int
  minute :: int
  second :: int
  microsecond :: int

definition is_leap :: "int \<Rightarrow> bool" where
  "is_leap y = (y mod 4 = 0 \<and> (y mod 400 = 0 \<or> y mod 100 \<noteq> 0))"

definition days_before_year :: "int \<Rightarrow> int" where
  "days_before_year y = (let z = y - 1 in z * 365 + z div 4 - z div 100 + z div 400)"

definition days_before_month :: "int \<Rightarrow> int \<Rightarrow> int" where
  "days_before_month y m =
     [0, 31, 59, 90, 120, 151, 181, 212, 243, 273, 304, 334] ! nat (m - 1)
       + (if 2 < m \<and> is_leap y then 1 else 0)"

definition toordinal :: "datetime \<Rightarrow> int" where
  "toordinal d = days_before_year (year d) + days_before_month (year d) (month d) + day d"

definition us_per_day :: int where
  "us_per_day = 86400000000"

definition weeks :: "int \<Rightarrow> int" where
  "weeks n = n * 7 * us_per_day"

definition to_us :: "datetime \<Rightarrow> int" where
  "to_us d =
     toordinal d * us_per_day
       + ((hour d * 60 + minute d) * 60 + second d) * 1000000 + microsecond d"

text \<open>A date cell may be missing (NaT); a comparison with a missing date is false.\<close>

definition dt_lt :: "datetime option \<Rightarrow> int \<Rightarrow> bool" where
  "dt_lt x t = (case x of None \<Rightarrow> False | Some d \<Rightarrow> to_us d < t)"

definition dt_le :: "datetime option \<Rightarrow> int \<Rightarrow> bool" where
  "dt_le x t = (case x of None \<Rightarrow> False | Some d \<Rightarrow> to_us d \<le> t)"

section \<open>Entities (model/entities.py)\<close>

datatype Position =
    UNKNOWN | NOT_APPLICABLE | GOALKEEPER | LEFT_BACK | RIGHT_BACK | CENTRE_BACK
  | DEFENSIVE_MIDFIELDER | CENTRE_MIDFIELDER | ATTACKING_MIDFIELDER
  | LEFT_WING | RIGHT_WING | CENTRE_FORWARD | OTHER

text \<open>The fields of \<open>Transfer\<close> that the engines read. A flag or amount may be None.\<close>

record Transfer =
  t_player_id :: int
  to_team_id :: int
  fee :: "int option"
  is_internal :: "bool option"
  is_end_loan :: "bool option"
  is_loan :: "bool option"
  t_market_value :: "int option"
  transfer_date :: datetime

text \<open>The fields of \<open>SquadPlayer\<close> that the engines read.\<close>

record SquadPlayer =
  player_id :: int
  name :: string
  birth_date :: "datetime option"
  first_position :: string
  second_position :: string
  third_position :: string
  contract_end :: "datetime option"
  loan_end :: "datetime option"
  on_loan :: bool
  market_value :: "int option"
  etv_current :: real
  etv_dev :: real
  sciskill :: real
  potential :: real

text \<open>A match sheet, as the provider returns it: two sides with their goals and players.\<close>

record sheet_player =
  sp_id :: int
  minutesPlayed :: int

record sheet_team =
  st_id :: int
  goals :: int
  players :: "sheet_player list"

record match_sheet =
  sheet_id :: int
  homeTeam :: sheet_team
  awayTeam :: sheet_team
  formationHome :: "string option"
  formationAway :: "string option"

record SciSportsTeam =
  team_id :: int
  transfers :: "Transfer list"
  match_sheets :: "match_sheet list"
  squad :: "SquadPlayer list"

record match_team_player =
  mtp_match_id :: int
  mtp_player_id :: int
  minutes_played :: int

record match_team_attribute =
  match_id :: int
  formation :: "string option"
  goals_scored :: int
  goals_conceded :: int
  formation_faced :: "string option"
  match_duration :: int

definition own_side :: "SciSportsTeam \<Rightarrow> match_sheet \<Rightarrow> sheet_team" where
  "own_side team sheet = (if st_id (homeTeam sheet) = team_id team then homeTeam sheet else awayTeam sheet)"

definition set_match_team_players :: "SciSportsTeam \<Rightarrow> match_team_player list" where
  "set_match_team_players team =
     concat (map (\<lambda>sheet.
        map (\<lambda>plr. \<lparr>mtp_match_id = sheet_id sheet, mtp_player_id = sp_id plr,
                     minutes_played = minutesPlayed plr\<rparr>)
            (players (own_side team sheet)))
       (match_sheets team))"

definition sheet_duration :: "sheet_player list \<Rightarrow> int" where
  "sheet_duration ps =
     fold (\<lambda>plr match_duration.
             if match_duration < minutesPlayed plr then minutesPlayed plr else match_duration)
          ps 0"

definition set_match_team_attributes :: "SciSportsTeam \<Rightarrow> match_team_attribute list" where
  "set_match_team_attributes team =
     map (\<lambda>sheet.
        let home = (st_id (homeTeam sheet) = team_id team) in
        \<lparr>match_id = sheet_id sheet,
         formation = (if home then formationHome sheet else formationAway sheet),
         goals_scored = goals (own_side team sheet),
         goals_conceded = goals (own_side team sheet),
         formation_faced = (if home then formationAway sheet else formationHome sheet),
         match_duration = sheet_duration (players (own_side team sheet))\<rparr>)
       (match_sheets team)"

section \<open>Alerts (model/recommendations.py)\<close>

datatype AlertPriority = LOW | MEDIUM | HIGH | CRITICAL

datatype AlertType =
    PAST_PEAK_AGE | CONTRACT_ENDING | LOAN_ENDING | WEAK_SPOT_STARTER | WEAK_SPOT_BACK_UP
  | WEAK_SPOT_SECONDARY | LACK_OF_DEPTH | CONTRACT_OR_LOAN_EXPIRED

record Alert =
  alert_type :: AlertType
  position :: Position
  alert_priority :: AlertPriority
  player :: "string option"

section \<open>Usage aggregation (\<open>_preprocess_squad\<close>, first half)\<close>

text \<open>
  The squad frame after the left merge with the per-player minutes: the columns of the
  player plus the aggregates. A player without any participation row gets missing
  aggregates, and the usage computed from them is missing as well.
\<close>

record usage_row = SquadPlayer +
  total_minutes :: "int option"
  avg_minutes :: "real option"
  total_games :: "int option"
  usage :: pyfloat

text \<open>\<open>groupby("player_id").agg(sum, mean, count)\<close>: one group per player id that occurs.\<close>

definition minutes_of :: "match_team_player list \<Rightarrow> int \<Rightarrow> int list" where
  "minutes_of mtp pid = map minutes_played (filter (\<lambda>m. mtp_player_id m = pid) mtp)"

definition available_minutes :: "match_team_attribute list \<Rightarrow> int" where
  "available_minutes matches = sum_list (map match_duration matches)"

definition usage_of :: "int option \<Rightarrow> int \<Rightarrow> pyfloat" where
  "usage_of minutes avail =
     (case minutes of None \<Rightarrow> NaN | Some t \<Rightarrow> pf_round1 (pf_mul (pf_div t avail) 100))"

definition with_usage :: "match_team_player list \<Rightarrow> int \<Rightarrow> SquadPlayer \<Rightarrow> usage_row" where
  "with_usage mtp avail p =
     (let ms = minutes_of mtp (player_id p);
          minutes = (if ms = [] then None else Some (sum_list ms))
      in SquadPlayer.extend p
           (usage_row.fields
              minutes
              (if ms = [] then None else Some (real_of_int (sum_list ms) / real (length ms)))
              (if ms = [] then None else Some (int (length ms)))
              (usage_of minutes avail)))"

definition usage_desc :: "'a usage_row_scheme \<Rightarrow> 'a usage_row_scheme \<Rightarrow> bool" where
  "usage_desc x y = pf_desc (usage x) (usage y)"

text \<open>
  \<open>PositionAlerts._preprocess_squad\<close>. Grouping a frame built from an empty list, or
  merging an empty squad frame, fails on the missing \<open>player_id\<close> column.
\<close>

definition PositionAlerts_preprocess :: "SciSportsTeam \<Rightarrow> error + usage_row list" where
  "PositionAlerts_preprocess team =
     (if set_match_team_players team = [] then Inl KeyError
      else if squad team = [] then Inl KeyError
      else Inr (sort_by usage_desc
                  (map (with_usage (set_match_team_players team)
                          (available_minutes (set_match_team_attributes team)))
                       (squad team))))"

section \<open>Player alerts (recommendations/alerts.py, \<open>PlayerAlerts\<close>)\<close>

subsection \<open>Transfers\<close>

text \<open>The frame returned by \<open>_preprocess_transfers\<close>, with its renamed columns.\<close>

record acquisition =
  acq_player_id :: int
  acq_paid_fee :: int
  acq_academy_player :: "bool option"
  acq_starting_market_value :: int

definition later_first :: "Transfer \<Rightarrow> Transfer \<Rightarrow> bool" where
  "later_first x y = (to_us (transfer_date y) \<le> to_us (transfer_date x))"

fun drop_duplicates :: "int list \<Rightarrow> Transfer list \<Rightarrow> Transfer list" where
  "drop_duplicates seen [] = []"
| "drop_duplicates seen (t # ts) =
     (if t_player_id t \<in> set seen then drop_duplicates seen ts
      else t # drop_duplicates (t_player_id t # seen) ts)"

definition fillna :: "'a \<Rightarrow> 'a option \<Rightarrow> 'a" where
  "fillna d x = (case x of None \<Rightarrow> d | Some v \<Rightarrow> v)"

text \<open>\<open>None\<close> stands for the frame without columns that the empty branch returns.\<close>

definition preprocess_transfers :: "SciSportsTeam \<Rightarrow> acquisition list option" where
  "preprocess_transfers team =
     (if transfers team = [] then None
      else
        let incoming = filter (\<lambda>t. to_team_id t = team_id team) (transfers team);
            kept = sort_by later_first (filter (\<lambda>t. \<not> fillna False (is_end_loan t)) incoming)
        in Some (map (\<lambda>t. \<lparr>acq_player_id = t_player_id t,
                             acq_paid_fee = fillna 0 (fee t),
                             acq_academy_player = is_internal t,
                             acq_starting_market_value = fillna 0 (t_market_value t)\<rparr>)
                     (drop_duplicates [] kept)))"

subsection \<open>The squad frame\<close>

record squad_row = usage_row +
  academy_player :: bool
  months_left :: "int option"
  paid_fee :: int
  starting_market_value :: "int option"
  etv_revenue :: int
  value_added :: int

definition floor_thousand :: "real \<Rightarrow> real" where
  "floor_thousand x = real_of_int \<lfloor>x / 1000\<rfloor> * 1000"

text \<open>
  One row of the frame that \<open>_preprocess\<close> leaves: the left merge with the transfers
  (\<open>acq\<close>, missing when the player has none) and the columns of \<open>_preprocess_squad\<close>, in the
  order of the source. \<open>now\<close> is the clock reading \<open>datetime.now()\<close>.
\<close>

definition PlayerAlerts_row ::
  "datetime \<Rightarrow> acquisition list \<Rightarrow> match_team_player list \<Rightarrow> int \<Rightarrow> SquadPlayer \<Rightarrow> squad_row" where
  "PlayerAlerts_row now acqs mtp avail p =
     (let acq = find (\<lambda>a. acq_player_id a = player_id p) acqs;
          u = with_usage mtp avail p;
          academy = fillna False (Option.bind acq acq_academy_player);
          end_date = (if on_loan p then loan_end p else contract_end p);
          months = map_option (\<lambda>x. (year now - year x) * 12 + month now - month x) end_date;
          fee_paid = fillna 0 (map_option acq_paid_fee acq);
          etv = floor_thousand (etv_current p);
          dev = floor_thousand (etv_dev p);
          revenue = (if on_loan p then None else Some (etv - real_of_int fee_paid));
          added = (if on_loan p then None
                   else (case (market_value p, map_option acq_starting_market_value acq) of
                           (Some m, Some s) \<Rightarrow> Some (m - s) | _ \<Rightarrow> None))
      in usage_row.extend
           (u\<lparr>contract_end := end_date, etv_current := etv, etv_dev := dev\<rparr>)
           (squad_row.fields
              academy
              months
              fee_paid
              (map_option acq_starting_market_value acq)
              (fillna 0 (map_option (\<lambda>r. \<lfloor>floor_thousand r\<rfloor>) revenue))
              (fillna 0 added)))"

text \<open>
  \<open>PlayerAlerts._preprocess\<close>. The merge on \<open>player_id\<close> fails when the squad frame or the
  transfer frame has no columns, the grouping when there is no participation row.
\<close>

definition PlayerAlerts_preprocess :: "SciSportsTeam \<Rightarrow> datetime \<Rightarrow> error + squad_row list" where
  "PlayerAlerts_preprocess team now =
     (case preprocess_transfers team of
        None \<Rightarrow> Inl KeyError
      | Some acqs \<Rightarrow>
          if squad team = [] then Inl KeyError
          else if set_match_team_players team = [] then Inl KeyError
          else Inr (sort_by usage_desc
                      (map (PlayerAlerts_row now acqs (set_match_team_players team)
                              (available_minutes (set_match_team_attributes team)))
                           (squad team))))"

subsection \<open>The engine\<close>

record PlayerAlerts =
  p_squad :: "squad_row list"
  p_alerts :: "Alert list"
  p_contract_delta :: int
  p_loan_delta :: int
  p_run_date :: datetime
  p_peak_age_limit :: real

definition PlayerAlerts_map_group :: "string \<Rightarrow> Position" where
  "PlayerAlerts_map_group g =
     (case map_of
        [(''Goalkeeper'', GOALKEEPER),
         (''CentreBack'', CENTRE_BACK),
         (''LeftBack'', LEFT_BACK),
         (''RightBack'', RIGHT_BACK),
         (''DefensiveMidfield'', DEFENSIVE_MIDFIELDER),
         (''CentreMidfield'', CENTRE_MIDFIELDER),
         (''AttackingMidfield'', ATTACKING_MIDFIELDER),
         (''RightWing'', RIGHT_WING),
         (''LeftWing'', LEFT_WING),
         (''CentreForward'', CENTRE_FORWARD)] g of
        Some p \<Rightarrow> p
      | None \<Rightarrow> OTHER)"

definition get_player_priority :: "'a usage_row_scheme \<Rightarrow> AlertPriority" where
  "get_player_priority plr =
     (if pf_gt (usage plr) 75 then CRITICAL
      else if pf_gt (usage plr) 50 \<and> pf_le (usage plr) 75 then HIGH
      else if pf_gt (usage plr) 25 \<and> pf_le (usage plr) 50 then MEDIUM
      else LOW)"

definition player_alert :: "AlertType \<Rightarrow> squad_row \<Rightarrow> Alert" where
  "player_alert ty plr =
     \<lparr>alert_type = ty,
      position = PlayerAlerts_map_group (first_position plr),
      alert_priority = get_player_priority plr,
      player = Some (name plr)\<rparr>"

text \<open>The columns \<open>age\<close> and \<open>exclude\<close> of \<open>_move_squad_forward\<close>, as functions of the row.\<close>

definition age :: "datetime \<Rightarrow> squad_row \<Rightarrow> pyfloat" where
  "age run r =
     (case birth_date r of
        None \<Rightarrow> NaN
      | Some b \<Rightarrow> Fin (real_of_int ((to_us run - to_us b) div us_per_day) / 365.25))"

definition exclude :: "datetime \<Rightarrow> squad_row \<Rightarrow> bool" where
  "exclude run r =
     ((dt_lt (contract_end r) (to_us run) \<and> \<not> on_loan r)
      \<or> (dt_lt (loan_end r) (to_us run) \<and> on_loan r))"

definition move_squad_forward :: "PlayerAlerts \<Rightarrow> PlayerAlerts" where
  "move_squad_forward st =
     st\<lparr>p_alerts := p_alerts st
          @ map (player_alert CONTRACT_OR_LOAN_EXPIRED)
              (filter (exclude (p_run_date st)) (p_squad st)),
        p_squad := filter (\<lambda>r. \<not> exclude (p_run_date st) r) (p_squad st)\<rparr>"

definition PlayerAlerts_init ::
  "SciSportsTeam \<Rightarrow> int \<Rightarrow> int \<Rightarrow> datetime \<Rightarrow> real \<Rightarrow> datetime \<Rightarrow> error + PlayerAlerts" where
  "PlayerAlerts_init team contract_delta loan_delta run_date peak_age_limit now =
     (case PlayerAlerts_preprocess team now of
        Inl e \<Rightarrow> Inl e
      | Inr rows \<Rightarrow>
          Inr (move_squad_forward
                 \<lparr>p_squad = rows, p_alerts = [], p_contract_delta = contract_delta,
                  p_loan_delta = loan_delta, p_run_date = run_date,
                  p_peak_age_limit = peak_age_limit\<rparr>))"

text \<open>The three rule columns of \<open>set_alerts\<close>, as functions of the row.\<close>

definition contract_ends_alert :: "PlayerAlerts \<Rightarrow> squad_row \<Rightarrow> bool" where
  "contract_ends_alert st r =
     (dt_le (contract_end r) (to_us (p_run_date st) + p_contract_delta st) \<and> \<not> on_loan r)"

definition loan_ends_alert :: "PlayerAlerts \<Rightarrow> squad_row \<Rightarrow> bool" where
  "loan_ends_alert st r =
     (dt_le (loan_end r) (to_us (p_run_date st) + p_loan_delta st) \<and> on_loan r)"

definition age_alert :: "PlayerAlerts \<Rightarrow> squad_row \<Rightarrow> bool" where
  "age_alert st r = pf_gt (age (p_run_date st) r) (p_peak_age_limit st)"

definition get_player_alert_type :: "PlayerAlerts \<Rightarrow> squad_row \<Rightarrow> AlertType list" where
  "get_player_alert_type st plr =
     (if contract_ends_alert st plr then [CONTRACT_ENDING] else [])
     @ (if loan_ends_alert st plr then [LOAN_ENDING] else [])
     @ (if age_alert st plr then [PAST_PEAK_AGE] else [])"

definition set_player_alerts :: "PlayerAlerts \<Rightarrow> squad_row \<Rightarrow> Alert list" where
  "set_player_alerts st row = map (\<lambda>ty. player_alert ty row) (get_player_alert_type st row)"

definition set_alerts :: "PlayerAlerts \<Rightarrow> PlayerAlerts" where
  "set_alerts st = st\<lparr>p_alerts := p_alerts st @ concat (map (set_player_alerts st) (p_squad st))\<rparr>"

section \<open>Position alerts (recommendations/alerts.py, \<open>PositionAlerts\<close>)\<close>

definition PositionAlerts_mapping :: "(string \<times> Position) list" where
  "PositionAlerts_mapping =
     [(''Goalkeeper'', GOALKEEPER),
      (''CentreBack'', CENTRE_BACK),
      (''LeftBack'', LEFT_BACK),
      (''RightBack'', RIGHT_BACK),
      (''DefensiveMidfield'', DEFENSIVE_MIDFIELDER),
      (''CentralMidfield'', CENTRE_MIDFIELDER),
      (''AttackingMidfield'', ATTACKING_MIDFIELDER),
      (''RightWing'', RIGHT_WING),
      (''LeftWing'', LEFT_WING),
      (''CentreForward'', CENTRE_FORWARD)]"

text \<open>\<open>_map_group(group)\<close>, from the name to the position.\<close>

definition PositionAlerts_map_group :: "string \<Rightarrow> Position" where
  "PositionAlerts_map_group g =
     (case map_of PositionAlerts_mapping g of Some p \<Rightarrow> p | None \<Rightarrow> OTHER)"

text \<open>
  \<open>_map_group(group, reverse=True)\<close>: the dictionary is inverted (a later entry would win)
  and a position without a name gives None.
\<close>

definition PositionAlerts_map_group_reverse :: "Position \<Rightarrow> string option" where
  "PositionAlerts_map_group_reverse p =
     map_of (rev (map (\<lambda>(k, v). (v, k)) PositionAlerts_mapping)) p"

definition sciskill_desc :: "usage_row \<Rightarrow> usage_row \<Rightarrow> bool" where
  "sciskill_desc x y = (sciskill y \<le> sciskill x)"

definition get_position_group :: "usage_row list \<Rightarrow> Position \<Rightarrow> bool \<Rightarrow> usage_row list" where
  "get_position_group sq grp include_secondary_positions =
     (let g = PositionAlerts_map_group_reverse grp in
      if include_secondary_positions
      then sort_by sciskill_desc
             (filter (\<lambda>r. Some (first_position r) = g \<or> Some (second_position r) = g
                          \<or> Some (third_position r) = g) sq)
      else sort_by sciskill_desc (filter (\<lambda>r. Some (first_position r) = g) sq))"

record benchmark =
  b_group :: Position
  starter_level :: real
  starter_potential :: real
  back_up_level :: real
  back_up_potential :: real
  secondary_back_up_level :: real
  secondary_back_up_potential :: real

definition set_position_benchmarks :: "usage_row list \<Rightarrow> Position \<Rightarrow> benchmark" where
  "set_position_benchmarks sq grp =
     (let df = get_position_group sq grp True in
      \<lparr>b_group = grp,
       starter_level = (if 0 < length df then sciskill (df ! 0) else 0),
       starter_potential = (if 0 < length df then potential (df ! 0) else 0),
       back_up_level = (if 1 < length df then sciskill (df ! 1) else 0),
       back_up_potential = (if 1 < length df then potential (df ! 1) else 0),
       secondary_back_up_level = (if 2 < length df then sciskill (df ! 2) else 0),
       secondary_back_up_potential = (if 2 < length df then potential (df ! 2) else 0)\<rparr>)"

definition position_groups :: "string list" where
  "position_groups =
     [''Goalkeeper'', ''CentreBack'', ''LeftBack'', ''RightBack'', ''DefensiveMidfield'',
      ''CentralMidfield'', ''AttackingMidfield'', ''RightWing'', ''LeftWing'', ''CentreForward'']"

definition aggregate_groups :: "usage_row list \<Rightarrow> benchmark list" where
  "aggregate_groups sq =
     map (\<lambda>g. set_position_benchmarks sq (PositionAlerts_map_group g)) position_groups"

text \<open>
  A row of the group frame. The columns \<open>{level}_{feature}\<close> and \<open>{level}_{feature}_rank\<close> are
  indexed by the two parts of their names. A rank is 0 until \<open>_set_rank\<close> creates its column
  (all six are created before one is read); an alert cell is missing until its loop sets it.
\<close>

datatype tier = Starter | Back_up | Secondary_back_up

datatype feature = Level | Potential

record group_row =
  group :: Position
  val :: "tier \<Rightarrow> feature \<Rightarrow> real"
  rank :: "tier \<Rightarrow> feature \<Rightarrow> int"
  depth_alert :: "bool option"
  weak_alert :: "tier \<Rightarrow> bool option"

definition benchmark_val :: "benchmark \<Rightarrow> tier \<Rightarrow> feature \<Rightarrow> real" where
  "benchmark_val b t f =
     (case (t, f) of
        (Starter, Level) \<Rightarrow> starter_level b
      | (Starter, Potential) \<Rightarrow> starter_potential b
      | (Back_up, Level) \<Rightarrow> back_up_level b
      | (Back_up, Potential) \<Rightarrow> back_up_potential b
      | (Secondary_back_up, Level) \<Rightarrow> secondary_back_up_level b
      | (Secondary_back_up, Potential) \<Rightarrow> secondary_back_up_potential b)"

definition frame_row :: "benchmark \<Rightarrow> group_row" where
  "frame_row b =
     \<lparr>group = b_group b, val = benchmark_val b, rank = (\<lambda>t f. 0),
      depth_alert = None, weak_alert = (\<lambda>t. None)\<rparr>"

definition val_desc :: "tier \<Rightarrow> feature \<Rightarrow> group_row \<Rightarrow> group_row \<Rightarrow> bool" where
  "val_desc t f x y = (val y t f \<le> val x t f)"

definition set_rank :: "group_row list \<Rightarrow> tier \<Rightarrow> feature \<Rightarrow> group_row list" where
  "set_rank df t f =
     map (\<lambda>(i, r). r\<lparr>rank := (rank r)(t := (rank r t)(f := int i + 1))\<rparr>)
         (enumerate 0 (sort_by (val_desc t f) df))"

definition get_set_group_kpis :: "usage_row list \<Rightarrow> group_row list" where
  "get_set_group_kpis sq =
     (let df0 = map frame_row (aggregate_groups sq);
          df1 = set_rank df0 Starter Level;
          df2 = set_rank df1 Back_up Level;
          df3 = set_rank df2 Secondary_back_up Level;
          df4 = set_rank df3 Starter Potential;
          df5 = set_rank df4 Back_up Potential
      in set_rank df5 Secondary_back_up Potential)"

definition depth_issue :: "group_row \<Rightarrow> bool" where
  "depth_issue g =
     (val g Starter Level = 0 \<or> val g Back_up Level = 0 \<or> val g Secondary_back_up Level = 0)"

definition set_depth_issues :: "group_row list \<Rightarrow> group_row list" where
  "set_depth_issues df_groups =
     fold (\<lambda>g df. map (\<lambda>r. if group r = group g
                              then r\<lparr>depth_alert := Some (depth_issue g)\<rparr> else r) df)
          df_groups df_groups"

text \<open>The maximum of a column; it is missing for a column without rows.\<close>

fun column_max :: "int list \<Rightarrow> int option" where
  "column_max [] = None"
| "column_max (x # xs) = Some (fold max xs x)"

text \<open>\<open>rank > column.max() - 3\<close>; the comparison with a missing maximum is false.\<close>

definition bottom :: "group_row list \<Rightarrow> tier \<Rightarrow> feature \<Rightarrow> group_row \<Rightarrow> bool" where
  "bottom df t f g =
     (case column_max (map (\<lambda>r. rank r t f) df) of
        None \<Rightarrow> False
      | Some m \<Rightarrow> m - 3 < rank g t f)"

definition set_strength_issues :: "group_row list \<Rightarrow> tier \<Rightarrow> group_row list" where
  "set_strength_issues df_groups t =
     fold (\<lambda>g df.
             let level_bottom = bottom df t Level g;
                 potential_bottom = bottom df t Potential g
             in map (\<lambda>r. if group r = group g
                          then r\<lparr>weak_alert := (weak_alert r)(t := Some (level_bottom \<and> potential_bottom))\<rparr>
                          else r) df)
          df_groups df_groups"

definition get_set_alerts :: "usage_row list \<Rightarrow> group_row list" where
  "get_set_alerts sq =
     set_strength_issues
       (set_strength_issues
          (set_strength_issues (set_depth_issues (get_set_group_kpis sq)) Starter)
          Back_up)
       Secondary_back_up"

text \<open>The truth value of an alert cell in an \<open>if\<close>: a missing cell (NaN) counts as true.\<close>

definition truthy :: "bool option \<Rightarrow> bool" where
  "truthy c = (case c of None \<Rightarrow> True | Some b \<Rightarrow> b)"

definition position_alert :: "AlertType \<Rightarrow> AlertPriority \<Rightarrow> Position \<Rightarrow> Alert" where
  "position_alert ty prio pos =
     \<lparr>alert_type = ty, position = pos, alert_priority = prio, player = None\<rparr>"

definition set_position_alerts :: "group_row \<Rightarrow> Alert list" where
  "set_position_alerts pos =
     (if truthy (depth_alert pos) then [position_alert LACK_OF_DEPTH MEDIUM (group pos)] else [])
     @ (if truthy (weak_alert pos Starter)
        then [position_alert WEAK_SPOT_STARTER HIGH (group pos)] else [])
     @ (if truthy (weak_alert pos Back_up)
        then [position_alert WEAK_SPOT_BACK_UP MEDIUM (group pos)] else [])
     @ (if truthy (weak_alert pos Secondary_back_up)
        then [position_alert WEAK_SPOT_SECONDARY LOW (group pos)] else [])"

text \<open>\<open>PositionAlerts.set_alerts\<close> on the squad frame that the constructor prepared.\<close>

definition PositionAlerts_set_alerts :: "usage_row list \<Rightarrow> Alert list" where
  "PositionAlerts_set_alerts sq = concat (map set_position_alerts (get_set_alerts sq))"

definition PositionAlerts_run :: "SciSportsTeam \<Rightarrow> error + Alert list" where
  "PositionAlerts_run team =
     (case PositionAlerts_preprocess team of
        Inl e \<Rightarrow> Inl e
      | Inr sq \<Rightarrow> Inr (PositionAlerts_set_alerts sq))"

section \<open>Squad insights (insights/squad.py)\<close>

subsection \<open>Transfer insights\<close>

text \<open>
  A row of the transfer frame after \<open>SquadTransferInsights._preprocess\<close>. The contract
  dates and the league nations are not modelled.
\<close>

record transfer_row =
  tr_fee :: int
  tr_market_value :: int
  tr_is_loan :: bool
  incoming :: bool

text \<open>The frame of an empty transfer list has no columns: reading \<open>is_end_loan\<close> fails.\<close>

definition SquadTransferInsights_preprocess :: "SciSportsTeam \<Rightarrow> error + transfer_row list" where
  "SquadTransferInsights_preprocess team =
     (if transfers team = [] then Inl KeyError
      else Inr (map (\<lambda>t. \<lparr>tr_fee = fillna 0 (fee t),
                            tr_market_value = fillna 0 (t_market_value t),
                            tr_is_loan = fillna False (is_loan t),
                            incoming = (to_team_id t = team_id team)\<rparr>)
                    (sort_by later_first
                       (filter (\<lambda>t. \<not> fillna False (is_end_loan t)) (transfers team)))))"

text \<open>The mean of a column; it is NaN for a column without rows.\<close>

definition mean :: "real list \<Rightarrow> pyfloat" where
  "mean xs = (if xs = [] then NaN else Fin (sum_list xs / real (length xs)))"

text \<open>
  The result of \<open>analyze_inbound\<close>, up to the contract range and the market shares. The
  entries are computed in the order of the dictionary display; \<open>percentage_free\<close> divides
  two Python integers.
\<close>

record inbound_insights =
  total_transfers :: nat
  total_spend :: int
  percentage_loans :: pyfloat
  percentage_free :: real
  fee_min :: int
  fee_mean :: pyfloat
  fee_max :: int
  market_value_min :: int
  market_value_mean :: pyfloat
  market_value_max :: int

definition analyze_inbound :: "transfer_row list \<Rightarrow> error + inbound_insights" where
  "analyze_inbound data =
     (let sample = filter incoming data;
          loans_excluded = filter (\<lambda>t. \<not> tr_is_loan t) sample
      in case loans_excluded of
           [] \<Rightarrow> Inl ZeroDivisionError
         | t # ts \<Rightarrow>
             Inr \<lparr>total_transfers = length sample,
                  total_spend = sum_list (map tr_fee loans_excluded),
                  percentage_loans = mean (map (\<lambda>t. if tr_is_loan t then 1 else 0) sample),
                  percentage_free =
                    real (length (filter (\<lambda>t. tr_fee t = 0) loans_excluded))
                      / real (length loans_excluded),
                  fee_min = fold min (map tr_fee ts) (tr_fee t),
                  fee_mean = mean (map (\<lambda>t. real_of_int (tr_fee t)) loans_excluded),
                  fee_max = fold max (map tr_fee ts) (tr_fee t),
                  market_value_min = fold min (map tr_market_value ts) (tr_market_value t),
                  market_value_mean = mean (map (\<lambda>t. real_of_int (tr_market_value t)) loans_excluded),
                  market_value_max = fold max (map tr_market_value ts) (tr_market_value t)\<rparr>)"

definition SquadTransferInsights_analyze_inbound :: "SciSportsTeam \<Rightarrow> error + inbound_insights" where
  "SquadTransferInsights_analyze_inbound team =
     (case SquadTransferInsights_preprocess team of
        Inl e \<Rightarrow> Inl e
      | Inr data \<Rightarrow> analyze_inbound data)"

subsection \<open>Performance insights\<close>

record match_row = match_team_attribute +
  points :: "int option"

text \<open>\<open>_preprocess_matches\<close>: three masked assignments to the new column \<open>points\<close>, in order.\<close>

definition match_points :: "match_team_attribute \<Rightarrow> int option" where
  "match_points m =
     (let p0 = None;
          p1 = (if goals_conceded m < goals_scored m then Some 3 else p0);
          p2 = (if goals_scored m = goals_conceded m then Some 1 else p1)
      in if goals_scored m < goals_conceded m then Some 0 else p2)"

definition preprocess_matches :: "match_team_attribute list \<Rightarrow> match_row list" where
  "preprocess_matches ms = map (\<lambda>m. match_team_attribute.extend m (match_row.fields (match_points m))) ms"

text \<open>
  The constructor: the match frame of a team without sheets has no columns, and the squad
  is prepared as in the position engine.
\<close>

definition SquadPerformanceInsights_init ::
  "SciSportsTeam \<Rightarrow> error + match_row list \<times> usage_row list" where
  "SquadPerformanceInsights_init team =
     (if set_match_team_attributes team = [] then Inl KeyError
      else case PositionAlerts_preprocess team of
             Inl e \<Rightarrow> Inl e
           | Inr sq \<Rightarrow> Inr (preprocess_matches (set_match_team_attributes team), sq))"

text \<open>\<open>value_counts\<close>: the values that are present, by descending count.\<close>

definition value_counts :: "'a option list \<Rightarrow> ('a \<times> nat) list" where
  "value_counts col =
     (let present = concat (map (\<lambda>c. case c of None \<Rightarrow> [] | Some v \<Rightarrow> [v]) col)
      in sort_by (\<lambda>x y. snd y \<le> snd x)
           (map (\<lambda>v. (v, count_list present v)) (rev (remdups (rev present)))))"

definition get_team_formations :: "match_row list \<Rightarrow> error + string \<times> string" where
  "get_team_formations matches =
     (case value_counts (map formation matches) of
        [] \<Rightarrow> Inl IndexError
      | [a] \<Rightarrow> Inr (fst a, fst a)
      | a # b # rest \<Rightarrow> Inr (fst a, fst b))"

text \<open>The result of \<open>get_team_performance_insights\<close>, up to the means over the squad.\<close>

record performance_insights =
  primary_formation :: string
  secondary_formation :: string
  pi_goals_scored :: int
  pi_goals_conceded :: int
  matches_won :: nat
  matches_drawn :: nat
  matches_lost :: nat
  goals_scored_per_game :: pyfloat
  goals_conceded_per_game :: pyfloat
  total_points :: int
  points_per_game :: pyfloat

definition get_team_performance_insights :: "match_row list \<Rightarrow> error + performance_insights" where
  "get_team_performance_insights matches =
     (case get_team_formations matches of
        Inl e \<Rightarrow> Inl e
      | Inr (primary, secondary) \<Rightarrow>
          Inr \<lparr>primary_formation = primary,
               secondary_formation = secondary,
               pi_goals_scored = sum_list (map goals_scored matches),
               pi_goals_conceded = sum_list (map goals_conceded matches),
               matches_won = length (filter (\<lambda>m. points m = Some 3) matches),
               matches_drawn = length (filter (\<lambda>m. points m = Some 1) matches),
               matches_lost = length (filter (\<lambda>m. points m = Some 0) matches),
               goals_scored_per_game =
                 pf_round1 (mean (map (\<lambda>m. real_of_int (goals_scored m)) matches)),
               goals_conceded_per_game =
                 pf_round1 (mean (map (\<lambda>m. real_of_int (goals_conceded m)) matches)),
               total_points = sum_list (map (\<lambda>m. fillna 0 (points m)) matches),
               points_per_game =
                 pf_round1 (mean (concat (map (\<lambda>m. case points m of None \<Rightarrow> []
                                                      | Some p \<Rightarrow> [real_of_int p]) matches)))\<rparr>)"

definition SquadPerformanceInsights_insights :: "SciSportsTeam \<Rightarrow> error + performance_insights" where
  "SquadPerformanceInsights_insights team =
     (case SquadPerformanceInsights_init team of
        Inl e \<Rightarrow> Inl e
      | Inr (matches, sq) \<Rightarrow> get_team_performance_insights matches)"

section \<open>A sample team\<close>

text \<open>
  One match sheet, one inbound transfer and three players: Bea plays 90 of the 120 available
  minutes, Cy is on loan and appears on no sheet, and Ann's contract ended before the run
  date of 1 January 2024.
\<close>

definition midnight :: "int \<Rightarrow> int \<Rightarrow> int \<Rightarrow> datetime" where
  "midnight y m d =
     \<lparr>year = y, month = m, day = d, hour = 0, minute = 0, second = 0, microsecond = 0\<rparr>"

definition demo_team :: SciSportsTeam where
  "demo_team =
     \<lparr>team_id = 1,
      transfers =
        [\<lparr>t_player_id = 10, to_team_id = 1, fee = Some 1500, is_internal = Some False,
          is_end_loan = None, is_loan = Some False, t_market_value = Some 2000,
          transfer_date = midnight 2019 7 1\<rparr>],
      match_sheets =
        [\<lparr>sheet_id = 100,
          homeTeam = \<lparr>st_id = 1, goals = 2,
                      players = [\<lparr>sp_id = 10, minutesPlayed = 120\<rparr>,
                                 \<lparr>sp_id = 11, minutesPlayed = 90\<rparr>]\<rparr>,
          awayTeam = \<lparr>st_id = 2, goals = 0, players = [\<lparr>sp_id = 20, minutesPlayed = 120\<rparr>]\<rparr>,
          formationHome = Some ''4-3-3'', formationAway = Some ''4-4-2''\<rparr>],
      squad =
        [\<lparr>player_id = 11, name = ''Bea'', birth_date = Some (midnight 1990 5 17),
          first_position = ''LeftBack'', second_position = '''', third_position = '''',
          contract_end = Some (midnight 2024 6 30), loan_end = None, on_loan = False,
          market_value = None, etv_current = 800000, etv_dev = - 1500,
          sciskill = 60, potential = 62\<rparr>,
         \<lparr>player_id = 12, name = ''Cy'', birth_date = Some (midnight 2003 2 1),
          first_position = ''LeftBack'', second_position = ''LeftWing'', third_position = '''',
          contract_end = None, loan_end = Some (midnight 2024 3 1), on_loan = True,
          market_value = Some 300000, etv_current = 250999, etv_dev = 0,
          sciskill = 50, potential = 70\<rparr>,
         \<lparr>player_id = 10, name = ''Ann'', birth_date = Some (midnight 1995 1 1),
          first_position = ''CentralMidfield'', second_position = '''', third_position = '''',
          contract_end = Some (midnight 2023 6 30), loan_end = None, on_loan = False,
          market_value = Some 2500, etv_current = 12345.6, etv_dev = 999.5,
          sciskill = 80, potential = 85\<rparr>]\<rparr>"

definition demo_run_date :: datetime where
  "demo_run_date = midnight 2024 1 1"

definition demo_rows :: "squad_row list" where
  "demo_rows = (case PlayerAlerts_preprocess demo_team demo_run_date of Inl e \<Rightarrow> [] | Inr rows \<Rightarrow> rows)"

definition demo_engine :: PlayerAlerts where
  "demo_engine =
     move_squad_forward
       \<lparr>p_squad = demo_rows, p_alerts = [], p_contract_delta = weeks 52, p_loan_delta = weeks 26,
        p_run_date = demo_run_date, p_peak_age_limit = 28\<rparr>"

definition demo_frame :: "usage_row list" where
  "demo_frame = (case PositionAlerts_preprocess demo_team of Inl e \<Rightarrow> [] | Inr sq \<Rightarrow> sq)"

text \<open>The same team when its only transfer is an inbound loan.\<close>

definition loan_team :: SciSportsTeam where
  "loan_team =
     demo_team\<lparr>transfers :=
        [\<lparr>t_player_id = 12, to_team_id = 1, fee = Some 0, is_internal = Some False,
          is_end_loan = Some False, is_loan = Some True, t_market_value = Some 300000,
          transfer_date = midnight 2023 8 1\<rparr>]\<rparr>"

lemmas demo_eval =
  midnight_def demo_team_def demo_run_date_def demo_rows_def demo_engine_def loan_team_def
  PlayerAlerts_init_def PlayerAlerts_preprocess_def preprocess_transfers_def
  set_match_team_players_def set_match_team_attributes_def own_side_def sheet_duration_def
  sort_by_def usage_desc_def pf_desc_def with_usage_def minutes_of_def available_minutes_def
  usage_of_def pf_round1_def pf_mul_def pf_div_def rint_def PlayerAlerts_row_def
  floor_thousand_def fillna_def later_first_def SquadPlayer.defs usage_row.defs squad_row.defs
  move_squad_forward_def exclude_def dt_lt_def dt_le_def to_us_def toordinal_def
  days_before_year_def days_before_month_def is_leap_def us_per_day_def weeks_def
  set_alerts_def set_player_alerts_def get_player_alert_type_def contract_ends_alert_def
  loan_ends_alert_def age_alert_def age_def pf_gt_def pf_le_def player_alert_def
  get_player_priority_def PlayerAlerts_map_group_def Let_def

lemmas position_eval =
  demo_frame_def PositionAlerts_preprocess_def PositionAlerts_mapping_def
  PositionAlerts_map_group_def PositionAlerts_map_group_reverse_def sciskill_desc_def
  get_position_group_def set_position_benchmarks_def position_groups_def aggregate_groups_def
  benchmark_val_def frame_row_def val_desc_def set_rank_def get_set_group_kpis_def
  depth_issue_def set_depth_issues_def bottom_def set_strength_issues_def get_set_alerts_def
  truthy_def position_alert_def set_position_alerts_def PositionAlerts_set_alerts_def
  PositionAlerts_run_def

lemmas insights_eval =
  SquadTransferInsights_preprocess_def mean_def analyze_inbound_def
  SquadTransferInsights_analyze_inbound_def match_points_def preprocess_matches_def
  SquadPerformanceInsights_init_def value_counts_def get_team_formations_def
  get_team_performance_insights_def SquadPerformanceInsights_insights_def
  match_team_attribute.defs match_row.defs

section \<open>Sorting and the rows of a run\<close>

lemma mset_insort_by: "mset (insort_by le x xs) = add_mset x (mset xs)"
  by (induction xs) auto

lemma mset_sort_by: "mset (sort_by le xs) = mset xs"
  unfolding sort_by_def by (induction xs) (auto simp: mset_insort_by)

lemma set_sort_by: "set (sort_by le xs) = set xs"
  by (metis mset_sort_by set_mset_mset)


lemma preprocess_rows:
  assumes "PlayerAlerts_preprocess team now = Inr rows"
  shows "\<exists>acqs. preprocess_transfers team = Some acqs \<and>
           rows = sort_by usage_desc
                    (map (PlayerAlerts_row now acqs (set_match_team_players team)
                            (available_minutes (set_match_team_attributes team)))
                         (squad team))"
  using assms by (auto simp: PlayerAlerts_preprocess_def split: option.splits if_splits)

lemma init_rows:
  assumes "PlayerAlerts_init team cd ld rd pal now = Inr st"
  shows "\<exists>rows. PlayerAlerts_preprocess team now = Inr rows \<and>
           st = \<lparr>p_squad = filter (\<lambda>r. \<not> exclude rd r) rows,
                 p_alerts = map (player_alert CONTRACT_OR_LOAN_EXPIRED) (filter (exclude rd) rows),
                 p_contract_delta = cd, p_loan_delta = ld, p_run_date = rd,
                 p_peak_age_limit = pal\<rparr>"
  using assms
  by (auto simp: PlayerAlerts_init_def move_squad_forward_def split: sum.splits)

lemma run_alerts:
  assumes "PlayerAlerts_preprocess team now = Inr rows"
    and "PlayerAlerts_init team cd ld rd pal now = Inr st"
  shows "p_alerts (set_alerts st) =
           map (player_alert CONTRACT_OR_LOAN_EXPIRED) (filter (exclude rd) rows)
           @ concat (map (set_player_alerts st) (filter (\<lambda>r. \<not> exclude rd r) rows))"
  using assms init_rows [OF assms(2)] by (auto simp: set_alerts_def)

lemma alert_of_row:
  assumes "PlayerAlerts_preprocess team now = Inr rows"
    and "PlayerAlerts_init team cd ld rd pal now = Inr st"
    and "a \<in> set (p_alerts (set_alerts st))"
  shows "\<exists>ty. \<exists>r \<in> set rows. a = player_alert ty r"
  using assms(3) unfolding run_alerts [OF assms(1,2)]
  by (auto simp: set_player_alerts_def)

lemma priority_cases:
  "(get_player_priority plr = CRITICAL) = pf_gt (usage plr) 75"
  "(get_player_priority plr = HIGH) = (pf_gt (usage plr) 50 \<and> pf_le (usage plr) 75)"
  "(get_player_priority plr = MEDIUM) = (pf_gt (usage plr) 25 \<and> pf_le (usage plr) 50)"
  "(get_player_priority plr = LOW) = (\<not> pf_gt (usage plr) 25)"
  by (auto simp: get_player_priority_def pf_gt_def pf_le_def split: pyfloat.splits)

lemma demo_init:
  "PlayerAlerts_init demo_team (weeks 52) (weeks 26) demo_run_date 28 demo_run_date = Inr demo_engine"
  by (simp add: demo_eval)

lemma demo_alerts:
  "p_alerts (set_alerts demo_engine) =
     [\<lparr>alert_type = CONTRACT_OR_LOAN_EXPIRED, position = OTHER, alert_priority = CRITICAL,
       player = Some ''Ann''\<rparr>,
      \<lparr>alert_type = CONTRACT_ENDING, position = LEFT_BACK, alert_priority = HIGH,
       player = Some ''Bea''\<rparr>,
      \<lparr>alert_type = PAST_PEAK_AGE, position = LEFT_BACK, alert_priority = HIGH,
       player = Some ''Bea''\<rparr>,
      \<lparr>alert_type = LOAN_ENDING, position = LEFT_BACK, alert_priority = LOW,
       player = Some ''Cy''\<rparr>]"
  by (simp add: demo_eval)

section \<open>Player alerts\<close>

text \<open>
  C1. Every alert of a run of the player engine was built from a row of the squad frame, and
  its priority is decided by that row's usage alone: CRITICAL exactly when usage > 75, HIGH
  exactly when 50 < usage <= 75, MEDIUM exactly when 25 < usage <= 50, LOW in every other
  case (a missing usage included). A usage of exactly 75 gives HIGH, whatever the alert type.
\<close>

theorem priority_from_usage:
  assumes "PlayerAlerts_init team cd ld rd pal now = Inr st"
    and "a \<in> set (p_alerts (set_alerts st))"
  shows "\<exists>rows ty. PlayerAlerts_preprocess team now = Inr rows \<and>
           (\<exists>plr \<in> set rows. a = player_alert ty plr \<and>
              (alert_priority a = CRITICAL \<longleftrightarrow> pf_gt (usage plr) 75) \<and>
              (alert_priority a = HIGH \<longleftrightarrow> pf_gt (usage plr) 50 \<and> pf_le (usage plr) 75) \<and>
              (alert_priority a = MEDIUM \<longleftrightarrow> pf_gt (usage plr) 25 \<and> pf_le (usage plr) 50) \<and>
              (alert_priority a = LOW \<longleftrightarrow> \<not> pf_gt (usage plr) 25) \<and>
              (usage plr = Fin 75 \<longrightarrow> alert_priority a = HIGH))"
proof -
  from init_rows [OF assms(1)] obtain rows where rows: "PlayerAlerts_preprocess team now = Inr rows"
    by blast
  from alert_of_row [OF rows assms] obtain ty r
    where r: "r \<in> set rows" and a: "a = player_alert ty r"
    by blast
  have "usage r = Fin 75 \<longrightarrow> get_player_priority r = HIGH"
    by (simp add: get_player_priority_def pf_gt_def pf_le_def)
  with r a have "\<exists>plr \<in> set rows. a = player_alert ty plr \<and>
              (alert_priority a = CRITICAL \<longleftrightarrow> pf_gt (usage plr) 75) \<and>
              (alert_priority a = HIGH \<longleftrightarrow> pf_gt (usage plr) 50 \<and> pf_le (usage plr) 75) \<and>
              (alert_priority a = MEDIUM \<longleftrightarrow> pf_gt (usage plr) 25 \<and> pf_le (usage plr) 50) \<and>
              (alert_priority a = LOW \<longleftrightarrow> \<not> pf_gt (usage plr) 25) \<and>
              (usage plr = Fin 75 \<longrightarrow> alert_priority a = HIGH)"
    by (intro bexI [of _ r]) (simp_all add: player_alert_def priority_cases)
  with rows show ?thesis by blast
qed

theorem priority_from_usage_witness:
  "PlayerAlerts_init demo_team (weeks 52) (weeks 26) demo_run_date 28 demo_run_date = Inr demo_engine
   \<and> player_alert CONTRACT_ENDING (demo_rows ! 1) \<in> set (p_alerts (set_alerts demo_engine))
   \<and> usage (demo_rows ! 1) = Fin 75
   \<and> alert_priority (player_alert CONTRACT_ENDING (demo_rows ! 1)) = HIGH
   \<and> (\<exists>rows ty. PlayerAlerts_preprocess demo_team demo_run_date = Inr rows \<and>
        (\<exists>plr \<in> set rows. player_alert CONTRACT_ENDING (demo_rows ! 1) = player_alert ty plr))"
proof -
  have mem: "player_alert CONTRACT_ENDING (demo_rows ! 1) \<in> set (p_alerts (set_alerts demo_engine))"
    unfolding demo_alerts by (simp add: demo_eval)
  have "usage (demo_rows ! 1) = Fin 75"
    and "alert_priority (player_alert CONTRACT_ENDING (demo_rows ! 1)) = HIGH"
    by (simp_all add: demo_eval)
  with priority_from_usage [OF demo_init mem] demo_init mem show ?thesis
    by blast
qed

lemma row_fields:
  "name (PlayerAlerts_row now acqs mtp avail p) = name p"
  "player_id (PlayerAlerts_row now acqs mtp avail p) = player_id p"
  "on_loan (PlayerAlerts_row now acqs mtp avail p) = on_loan p"
  "loan_end (PlayerAlerts_row now acqs mtp avail p) = loan_end p"
  "first_position (PlayerAlerts_row now acqs mtp avail p) = first_position p"
  "birth_date (PlayerAlerts_row now acqs mtp avail p) = birth_date p"
  "market_value (PlayerAlerts_row now acqs mtp avail p) = market_value p"
  "contract_end (PlayerAlerts_row now acqs mtp avail p)
     = (if on_loan p then loan_end p else contract_end p)"
  by (simp_all add: PlayerAlerts_row_def with_usage_def Let_def
        SquadPlayer.defs usage_row.defs squad_row.defs)

lemma filter_distinct_key:
  assumes "distinct (map f xs)" and "x \<in> set xs"
  shows "filter (\<lambda>y. f y = f x) xs = [x]"
  using assms by (induction xs) (auto simp: filter_empty_conv image_iff)

lemma filter_player_map:
  "filter (\<lambda>a. player a = Some n) (map (player_alert ty) rs)
     = map (player_alert ty) (filter (\<lambda>r. name r = n) rs)"
  by (induction rs) (auto simp: player_alert_def)

lemma filter_player_concat:
  "filter (\<lambda>a. player a = Some n) (concat (map (set_player_alerts st) rs))
     = concat (map (set_player_alerts st) (filter (\<lambda>r. name r = n) rs))"
proof (induction rs)
  case Nil
  show ?case by simp
next
  case (Cons r rs)
  have "filter (\<lambda>a. player a = Some n) (set_player_alerts st r)
          = (if name r = n then set_player_alerts st r else [])"
    by (auto simp: set_player_alerts_def player_alert_def filter_empty_conv intro: filter_True)
  with Cons show ?case by simp
qed

text \<open>
  C2. Take a run on a squad whose players have distinct names (an alert names its player),
  and a player whose operative expiry date (\<open>loan_end\<close> if on loan, else \<open>contract_end\<close>) lies
  strictly before the run date. The alerts of the run that carry this player's name are
  exactly one alert: CONTRACT_OR_LOAN_EXPIRED, at the priority of the player's usage. So
  exactly one such alert is emitted, and no CONTRACT_ENDING, LOAN_ENDING or PAST_PEAK_AGE
  alert carries the player's name.
\<close>

theorem expired_player_alerts:
  assumes init: "PlayerAlerts_init team cd ld rd pal now = Inr st"
    and dist: "distinct (map name (squad team))"
    and p: "p \<in> set (squad team)"
    and expired: "dt_lt (if on_loan p then loan_end p else contract_end p) (to_us rd)"
  shows "\<exists>rows. PlayerAlerts_preprocess team now = Inr rows \<and>
           (\<exists>plr \<in> set rows. player_id plr = player_id p \<and> name plr = name p \<and>
              filter (\<lambda>a. player a = Some (name p)) (p_alerts (set_alerts st))
                = [\<lparr>alert_type = CONTRACT_OR_LOAN_EXPIRED,
                    position = PlayerAlerts_map_group (first_position p),
                    alert_priority = get_player_priority plr,
                    player = Some (name p)\<rparr>])
         \<and> length (filter (\<lambda>a. alert_type a = CONTRACT_OR_LOAN_EXPIRED \<and> player a = Some (name p))
                     (p_alerts (set_alerts st))) = 1
         \<and> \<not> (\<exists>a \<in> set (p_alerts (set_alerts st)). player a = Some (name p) \<and>
                 (alert_type a = CONTRACT_ENDING \<or> alert_type a = LOAN_ENDING
                  \<or> alert_type a = PAST_PEAK_AGE))"
proof -
  from init_rows [OF init] obtain rows where rows: "PlayerAlerts_preprocess team now = Inr rows"
    by blast
  from preprocess_rows [OF rows] obtain acqs where
    eq: "rows = sort_by usage_desc
                    (map (PlayerAlerts_row now acqs (set_match_team_players team)
                            (available_minutes (set_match_team_attributes team)))
                         (squad team))"
    by blast
  define f where "f = PlayerAlerts_row now acqs (set_match_team_players team)
                            (available_minutes (set_match_team_attributes team))"
  define plr where "plr = f p"
  define e where "e = player_alert CONTRACT_OR_LOAN_EXPIRED plr"
  define als where "als = p_alerts (set_alerts st)"
  have names: "map name (map f (squad team)) = map name (squad team)"
    by (simp add: f_def row_fields)
  have "mset (map name rows) = mset (map name (squad team))"
    unfolding eq f_def [symmetric] using names by (metis mset_map mset_sort_by)
  with dist have drows: "distinct (map name rows)"
    by (metis mset_eq_imp_distinct_iff)
  have in_rows: "plr \<in> set rows"
    unfolding eq f_def [symmetric] plr_def using p by (simp add: set_sort_by)
  have fields: "name plr = name p" "player_id plr = player_id p"
    "first_position plr = first_position p"
    by (simp_all add: plr_def f_def row_fields)
  have excl: "exclude rd plr"
    using expired by (auto simp: exclude_def plr_def f_def row_fields split: if_splits)
  have only: "filter (\<lambda>r. name r = name p) rows = [plr]"
    using filter_distinct_key [OF drows in_rows] fields(1) by simp
  have "filter (\<lambda>r. name r = name p) (filter (exclude rd) rows) = [plr]"
    "filter (\<lambda>r. name r = name p) (filter (\<lambda>r. \<not> exclude rd r) rows) = []"
  proof -
    have "filter (\<lambda>r. name r = name p) (filter (exclude rd) rows)
            = filter (exclude rd) (filter (\<lambda>r. name r = name p) rows)"
      by (simp add: conj_commute)
    thus "filter (\<lambda>r. name r = name p) (filter (exclude rd) rows) = [plr]"
      using only excl by simp
    have "filter (\<lambda>r. name r = name p) (filter (\<lambda>r. \<not> exclude rd r) rows)
            = filter (\<lambda>r. \<not> exclude rd r) (filter (\<lambda>r. name r = name p) rows)"
      by (simp add: conj_commute)
    thus "filter (\<lambda>r. name r = name p) (filter (\<lambda>r. \<not> exclude rd r) rows) = []"
      using only excl by simp
  qed
  hence named: "filter (\<lambda>a. player a = Some (name p)) als = [e]"
    unfolding als_def e_def run_alerts [OF rows init]
    by (simp add: filter_player_map filter_player_concat)
  have ty: "alert_type e = CONTRACT_OR_LOAN_EXPIRED"
    by (simp add: e_def player_alert_def)
  have "filter (\<lambda>a. alert_type a = CONTRACT_OR_LOAN_EXPIRED \<and> player a = Some (name p)) als
          = filter (\<lambda>a. alert_type a = CONTRACT_OR_LOAN_EXPIRED)
              (filter (\<lambda>a. player a = Some (name p)) als)"
    by (simp add: conj_commute)
  hence one: "length (filter (\<lambda>a. alert_type a = CONTRACT_OR_LOAN_EXPIRED \<and> player a = Some (name p)) als) = 1"
    unfolding named using ty by simp
  have none: "\<not> (\<exists>a \<in> set als. player a = Some (name p) \<and>
                 (alert_type a = CONTRACT_ENDING \<or> alert_type a = LOAN_ENDING
                  \<or> alert_type a = PAST_PEAK_AGE))"
  proof
    assume "\<exists>a \<in> set als. player a = Some (name p) \<and>
                 (alert_type a = CONTRACT_ENDING \<or> alert_type a = LOAN_ENDING
                  \<or> alert_type a = PAST_PEAK_AGE)"
    then obtain a where a: "a \<in> set als" "player a = Some (name p)"
      and t: "alert_type a = CONTRACT_ENDING \<or> alert_type a = LOAN_ENDING
                  \<or> alert_type a = PAST_PEAK_AGE"
      by blast
    from a have "a \<in> set (filter (\<lambda>a. player a = Some (name p)) als)" by simp
    hence "a = e" unfolding named by simp
    with t ty show False by simp
  qed
  from named have "filter (\<lambda>a. player a = Some (name p)) als
                = [\<lparr>alert_type = CONTRACT_OR_LOAN_EXPIRED,
                    position = PlayerAlerts_map_group (first_position p),
                    alert_priority = get_player_priority plr,
                    player = Some (name p)\<rparr>]"
    by (simp add: e_def player_alert_def fields)
  with rows in_rows fields one none show ?thesis
    unfolding als_def by blast
qed

theorem expired_player_alerts_witness:
  "PlayerAlerts_init demo_team (weeks 52) (weeks 26) demo_run_date 28 demo_run_date = Inr demo_engine
   \<and> distinct (map name (squad demo_team))
   \<and> squad demo_team ! 2 \<in> set (squad demo_team)
   \<and> name (squad demo_team ! 2) = ''Ann''
   \<and> dt_lt (contract_end (squad demo_team ! 2)) (to_us demo_run_date)
   \<and> length (filter (\<lambda>a. alert_type a = CONTRACT_OR_LOAN_EXPIRED \<and> player a = Some ''Ann'')
               (p_alerts (set_alerts demo_engine))) = 1"
proof -
  have d: "distinct (map name (squad demo_team))"
    and m: "squad demo_team ! 2 \<in> set (squad demo_team)"
    and n: "name (squad demo_team ! 2) = ''Ann''"
    and l: "\<not> on_loan (squad demo_team ! 2)"
    and x: "dt_lt (contract_end (squad demo_team ! 2)) (to_us demo_run_date)"
    by (simp_all add: demo_eval)
  from l x have "dt_lt (if on_loan (squad demo_team ! 2) then loan_end (squad demo_team ! 2)
                        else contract_end (squad demo_team ! 2)) (to_us demo_run_date)"
    by simp
  from expired_player_alerts [OF demo_init d m this]
  have "length (filter (\<lambda>a. alert_type a = CONTRACT_OR_LOAN_EXPIRED
                               \<and> player a = Some (name (squad demo_team ! 2)))
                  (p_alerts (set_alerts demo_engine))) = 1"
    by blast
  with d m n x demo_init show ?thesis
    by simp
qed

text \<open>
  C10. The two engines map position names differently. The position engine's dictionary and
  its list of ten groups use ''CentralMidfield'' for the centre-midfield group, and a player
  whose first position is that string belongs to the group it benchmarks. The player
  engine's dictionary has the key ''CentreMidfield'' instead, so it maps ''CentralMidfield''
  to OTHER: every alert that a run of the player engine builds from a player with that first
  position carries the position OTHER.
\<close>

theorem central_midfield_mismatch:
  assumes "PlayerAlerts_init team cd ld rd pal now = Inr st"
    and "a \<in> set (p_alerts (set_alerts st))"
    and "r \<in> set sq"
    and "first_position r = ''CentralMidfield''"
  shows "PositionAlerts_map_group ''CentralMidfield'' = CENTRE_MIDFIELDER
         \<and> ''CentralMidfield'' \<in> set position_groups
         \<and> ''CentreMidfield'' \<notin> set position_groups
         \<and> PositionAlerts_map_group_reverse CENTRE_MIDFIELDER = Some ''CentralMidfield''
         \<and> r \<in> set (get_position_group sq CENTRE_MIDFIELDER True)
         \<and> PlayerAlerts_map_group ''CentreMidfield'' = CENTRE_MIDFIELDER
         \<and> PlayerAlerts_map_group ''CentralMidfield'' = OTHER
         \<and> PlayerAlerts_map_group ''CentralMidfield'' \<noteq> PositionAlerts_map_group ''CentralMidfield''
         \<and> (\<exists>rows ty. PlayerAlerts_preprocess team now = Inr rows \<and>
               (\<exists>plr \<in> set rows. a = player_alert ty plr \<and>
                  (first_position plr = ''CentralMidfield'' \<longrightarrow> position a = OTHER)))"
proof -
  from init_rows [OF assms(1)] obtain rows where rows: "PlayerAlerts_preprocess team now = Inr rows"
    by blast
  from alert_of_row [OF rows assms(1,2)] obtain ty plr
    where "plr \<in> set rows" and "a = player_alert ty plr"
    by blast
  hence run: "\<exists>rows ty. PlayerAlerts_preprocess team now = Inr rows \<and>
               (\<exists>plr \<in> set rows. a = player_alert ty plr \<and>
                  (first_position plr = ''CentralMidfield'' \<longrightarrow> position a = OTHER))"
    using rows by (auto simp: player_alert_def PlayerAlerts_map_group_def)
  have rev: "PositionAlerts_map_group_reverse CENTRE_MIDFIELDER = Some ''CentralMidfield''"
    by (simp add: PositionAlerts_map_group_reverse_def PositionAlerts_mapping_def)
  have grp: "r \<in> set (get_position_group sq CENTRE_MIDFIELDER True)"
    using assms(3,4) by (simp add: get_position_group_def rev set_sort_by)
  have maps: "PositionAlerts_map_group ''CentralMidfield'' = CENTRE_MIDFIELDER"
    "''CentralMidfield'' \<in> set position_groups"
    "''CentreMidfield'' \<notin> set position_groups"
    "PlayerAlerts_map_group ''CentreMidfield'' = CENTRE_MIDFIELDER"
    "PlayerAlerts_map_group ''CentralMidfield'' = OTHER"
    by (simp_all add: PositionAlerts_map_group_def PositionAlerts_mapping_def
          PlayerAlerts_map_group_def position_groups_def)
  from maps rev grp run show ?thesis by simp
qed

theorem central_midfield_mismatch_witness:
  "PlayerAlerts_init demo_team (weeks 52) (weeks 26) demo_run_date 28 demo_run_date = Inr demo_engine
   \<and> player_alert CONTRACT_OR_LOAN_EXPIRED (demo_rows ! 0) \<in> set (p_alerts (set_alerts demo_engine))
   \<and> demo_frame ! 0 \<in> set demo_frame
   \<and> first_position (demo_frame ! 0) = ''CentralMidfield''
   \<and> position (player_alert CONTRACT_OR_LOAN_EXPIRED (demo_rows ! 0)) = OTHER
   \<and> demo_frame ! 0 \<in> set (get_position_group demo_frame CENTRE_MIDFIELDER True)"
proof -
  have mem: "player_alert CONTRACT_OR_LOAN_EXPIRED (demo_rows ! 0) \<in> set (p_alerts (set_alerts demo_engine))"
    unfolding demo_alerts by (simp add: demo_eval)
  have pos: "position (player_alert CONTRACT_OR_LOAN_EXPIRED (demo_rows ! 0)) = OTHER"
    by (simp add: demo_eval)
  have fr: "demo_frame ! 0 \<in> set demo_frame"
    and fp: "first_position (demo_frame ! 0) = ''CentralMidfield''"
    by (simp_all add: demo_eval position_eval)
  from central_midfield_mismatch [OF demo_init mem fr fp] mem pos fr fp demo_init
  show ?thesis by simp
qed

section \<open>Usage and the normalised columns\<close>

lemma floor_thousand_bounds:
  "floor_thousand x \<le> x" "x < floor_thousand x + 1000"
  "floor_thousand x = 1000 * real_of_int \<lfloor>x / 1000\<rfloor>"
proof -
  have "real_of_int \<lfloor>x / 1000\<rfloor> \<le> x / 1000" by (rule of_int_floor_le)
  thus "floor_thousand x \<le> x" unfolding floor_thousand_def by linarith
  have "x / 1000 < real_of_int \<lfloor>x / 1000\<rfloor> + 1" by linarith
  thus "x < floor_thousand x + 1000" unfolding floor_thousand_def by linarith
  show "floor_thousand x = 1000 * real_of_int \<lfloor>x / 1000\<rfloor>" by (simp add: floor_thousand_def)
qed

lemma floor_floor_thousand: "\<lfloor>floor_thousand x\<rfloor> = 1000 * \<lfloor>x / 1000\<rfloor>"
proof -
  have "floor_thousand x = real_of_int (1000 * \<lfloor>x / 1000\<rfloor>)"
    by (simp add: floor_thousand_def)
  thus ?thesis by (metis floor_of_int)
qed

lemma row_money:
  "etv_current (PlayerAlerts_row now acqs mtp avail p) = floor_thousand (etv_current p)"
  "etv_dev (PlayerAlerts_row now acqs mtp avail p) = floor_thousand (etv_dev p)"
  "paid_fee (PlayerAlerts_row now acqs mtp avail p)
     = (case find (\<lambda>a. acq_player_id a = player_id p) acqs of
          None \<Rightarrow> 0 | Some a \<Rightarrow> acq_paid_fee a)"
  "etv_revenue (PlayerAlerts_row now acqs mtp avail p)
     = (if on_loan p then 0
        else 1000 * \<lfloor>(floor_thousand (etv_current p)
                        - real_of_int (paid_fee (PlayerAlerts_row now acqs mtp avail p))) / 1000\<rfloor>)"
  "value_added (PlayerAlerts_row now acqs mtp avail p)
     = (if on_loan p then 0
        else case (market_value p, find (\<lambda>a. acq_player_id a = player_id p) acqs) of
               (Some m, Some a) \<Rightarrow> m - acq_starting_market_value a | _ \<Rightarrow> 0)"
  "months_left (PlayerAlerts_row now acqs mtp avail p)
     = map_option (\<lambda>x. (year now - year x) * 12 + month now - month x)
         (if on_loan p then loan_end p else contract_end p)"
  "total_minutes (PlayerAlerts_row now acqs mtp avail p)
     = (if minutes_of mtp (player_id p) = [] then None else Some (sum_list (minutes_of mtp (player_id p))))"
  "usage (PlayerAlerts_row now acqs mtp avail p)
     = usage_of (if minutes_of mtp (player_id p) = [] then None else Some (sum_list (minutes_of mtp (player_id p)))) avail"
  by (simp_all add: PlayerAlerts_row_def with_usage_def Let_def fillna_def floor_floor_thousand
        SquadPlayer.defs usage_row.defs squad_row.defs split: option.splits)

lemma rows_of_squad:
  assumes "PlayerAlerts_preprocess team now = Inr rows"
  shows "\<exists>acqs. preprocess_transfers team = Some acqs \<and>
           set rows = PlayerAlerts_row now acqs (set_match_team_players team)
                        (available_minutes (set_match_team_attributes team)) ` set (squad team) \<and>
           mset rows = image_mset (PlayerAlerts_row now acqs (set_match_team_players team)
                        (available_minutes (set_match_team_attributes team))) (mset (squad team))"
  using preprocess_rows [OF assms] by (auto simp: set_sort_by mset_sort_by)

text \<open>
  C5, as the code has it. A player of the roster who appears in no participation row is
  kept in the frame (the merge is a left merge and the frame has one row per player), but
  the missing minutes are not replaced by 0: the usage of that row is missing (NaN), which
  is not 0, and the priority computed from it is LOW.
\<close>

theorem absent_player_usage:
  assumes "PlayerAlerts_preprocess team now = Inr rows"
    and "p \<in> set (squad team)"
    and "minutes_of (set_match_team_players team) (player_id p) = []"
  shows "(\<exists>r \<in> set rows. player_id r = player_id p \<and> name r = name p \<and>
            total_minutes r = None \<and> usage r = NaN \<and> usage r \<noteq> Fin 0 \<and>
            get_player_priority r = LOW)
         \<and> length rows = length (squad team)
         \<and> mset (map player_id rows) = mset (map player_id (squad team))"
proof -
  from rows_of_squad [OF assms(1)] obtain acqs where
    s: "set rows = PlayerAlerts_row now acqs (set_match_team_players team)
                        (available_minutes (set_match_team_attributes team)) ` set (squad team)"
    and m: "mset rows = image_mset (PlayerAlerts_row now acqs (set_match_team_players team)
                        (available_minutes (set_match_team_attributes team))) (mset (squad team))"
    by blast
  define r where "r = PlayerAlerts_row now acqs (set_match_team_players team)
                        (available_minutes (set_match_team_attributes team)) p"
  have "r \<in> set rows" using assms(2) s by (simp add: r_def)
  moreover have "player_id r = player_id p" "name r = name p" "total_minutes r = None"
    "usage r = NaN"
    using assms(3) by (simp_all add: r_def row_fields row_money usage_of_def)
  moreover from this have "usage r \<noteq> Fin 0" "get_player_priority r = LOW"
    by (simp_all add: get_player_priority_def pf_gt_def)
  moreover have "length rows = length (squad team)"
    using m by (metis size_mset size_image_mset)
  moreover have "mset (map player_id rows) = mset (map player_id (squad team))"
  proof -
    have "mset (map player_id rows) = image_mset player_id (mset rows)" by simp
    also have "\<dots> = image_mset player_id (mset (squad team))"
      unfolding m by (simp add: image_mset.compositionality comp_def row_fields)
    finally show ?thesis by simp
  qed
  ultimately show ?thesis by blast
qed

lemma demo_preprocess: "PlayerAlerts_preprocess demo_team demo_run_date = Inr demo_rows"
  by (simp add: demo_eval)

text \<open>
  In the sample team Cy appears on no sheet, and the usage column of the frame holds NaN
  for Cy, not 0.
\<close>

theorem absent_player_usage_counterexample:
  "PlayerAlerts_preprocess demo_team demo_run_date = Inr demo_rows
   \<and> name (squad demo_team ! 1) = ''Cy''
   \<and> minutes_of (set_match_team_players demo_team) (player_id (squad demo_team ! 1)) = []
   \<and> map name demo_rows = [''Ann'', ''Bea'', ''Cy'']
   \<and> map usage demo_rows = [Fin 100, Fin 75, NaN]
   \<and> usage (demo_rows ! 2) \<noteq> Fin 0"
  by (simp add: demo_eval)

theorem absent_player_usage_witness:
  "PlayerAlerts_preprocess demo_team demo_run_date = Inr demo_rows
   \<and> squad demo_team ! 1 \<in> set (squad demo_team)
   \<and> minutes_of (set_match_team_players demo_team) (player_id (squad demo_team ! 1)) = []
   \<and> length demo_rows = length (squad demo_team)"
proof -
  have m: "squad demo_team ! 1 \<in> set (squad demo_team)"
    and n: "minutes_of (set_match_team_players demo_team) (player_id (squad demo_team ! 1)) = []"
    by (simp_all add: demo_eval)
  from absent_player_usage [OF demo_preprocess m n] demo_preprocess m n show ?thesis
    by blast
qed

text \<open>
  C6. The column \<open>months_left\<close> is the month of the clock minus the month of the operative
  expiry date, counted in calendar months: the negative of the months that remain. In the
  sample team Bea's contract ends on 30 June 2024 and the clock reads 1 January 2024: five
  months remain, and the column holds -5.
\<close>

theorem months_left_sign:
  "months_left (PlayerAlerts_row now acqs mtp avail p)
     = map_option (\<lambda>x. (year now - year x) * 12 + month now - month x)
         (if on_loan p then loan_end p else contract_end p)
   \<and> PlayerAlerts_preprocess demo_team demo_run_date = Inr demo_rows
   \<and> name (demo_rows ! 1) = ''Bea''
   \<and> on_loan (demo_rows ! 1) = False
   \<and> contract_end (demo_rows ! 1) = Some (midnight 2024 6 30)
   \<and> demo_run_date = midnight 2024 1 1
   \<and> months_left (demo_rows ! 1) = Some (- 5)"
proof -
  have "PlayerAlerts_preprocess demo_team demo_run_date = Inr demo_rows
   \<and> name (demo_rows ! 1) = ''Bea''
   \<and> on_loan (demo_rows ! 1) = False
   \<and> contract_end (demo_rows ! 1) = Some (midnight 2024 6 30)
   \<and> demo_run_date = midnight 2024 1 1
   \<and> months_left (demo_rows ! 1) = Some (- 5)"
    by (simp add: demo_eval)
  thus ?thesis by (simp add: row_money)
qed

text \<open>
  In the sample team Ann's paid fee stays 1500, her market value 2500 and her value added
  500, none of them a multiple of 1000, and Bea's missing market value stays missing.
\<close>

theorem monetary_rounding_counterexample:
  "PlayerAlerts_preprocess demo_team demo_run_date = Inr demo_rows
   \<and> map name demo_rows = [''Ann'', ''Bea'', ''Cy'']
   \<and> map paid_fee demo_rows = [1500, 0, 0]
   \<and> map market_value demo_rows = [Some 2500, None, Some 300000]
   \<and> map value_added demo_rows = [500, 0, 0]"
  by (simp add: demo_eval)

text \<open>
  C7, as the code has it. Every row of the frame comes from a player of the squad, and:
  the current value estimate and its delta are rounded down to a multiple of 1000; the
  revenue (estimate minus paid fee) is rounded down to a multiple of 1000, and is 0 for a
  player on loan; the paid fee is the fee of the acquisition, 0 when there is none, and is
  not rounded; the value added is the market value minus the starting market value, 0 when
  either is missing or the player is on loan, and is not rounded; the market value is left
  as supplied, missing included; months-left is missing exactly when the operative expiry
  date is.
\<close>

theorem monetary_normalisation:
  assumes "PlayerAlerts_preprocess team now = Inr rows"
    and "r \<in> set rows"
  shows "\<exists>acqs. preprocess_transfers team = Some acqs \<and>
          (\<exists>p \<in> set (squad team).
             player_id r = player_id p
             \<and> etv_current r = 1000 * real_of_int \<lfloor>etv_current p / 1000\<rfloor>
             \<and> etv_current r \<le> etv_current p \<and> etv_current p < etv_current r + 1000
             \<and> etv_dev r = 1000 * real_of_int \<lfloor>etv_dev p / 1000\<rfloor>
             \<and> etv_dev r \<le> etv_dev p \<and> etv_dev p < etv_dev r + 1000
             \<and> etv_revenue r
                 = (if on_loan p then 0
                    else 1000 * \<lfloor>(etv_current r - real_of_int (paid_fee r)) / 1000\<rfloor>)
             \<and> paid_fee r
                 = (case find (\<lambda>a. acq_player_id a = player_id p) acqs of
                      None \<Rightarrow> 0 | Some a \<Rightarrow> acq_paid_fee a)
             \<and> value_added r
                 = (if on_loan p then 0
                    else case (market_value p, find (\<lambda>a. acq_player_id a = player_id p) acqs) of
                           (Some m, Some a) \<Rightarrow> m - acq_starting_market_value a | _ \<Rightarrow> 0)
             \<and> market_value r = market_value p
             \<and> months_left r
                 = map_option (\<lambda>x. (year now - year x) * 12 + month now - month x)
                     (if on_loan p then loan_end p else contract_end p))"
proof -
  from rows_of_squad [OF assms(1)] obtain acqs where
    a: "preprocess_transfers team = Some acqs"
    and s: "set rows = PlayerAlerts_row now acqs (set_match_team_players team)
                        (available_minutes (set_match_team_attributes team)) ` set (squad team)"
    by blast
  from assms(2) s obtain p where p: "p \<in> set (squad team)"
    and r: "r = PlayerAlerts_row now acqs (set_match_team_players team)
                        (available_minutes (set_match_team_attributes team)) p"
    by blast
  have "player_id r = player_id p
             \<and> etv_current r = 1000 * real_of_int \<lfloor>etv_current p / 1000\<rfloor>
             \<and> etv_current r \<le> etv_current p \<and> etv_current p < etv_current r + 1000
             \<and> etv_dev r = 1000 * real_of_int \<lfloor>etv_dev p / 1000\<rfloor>
             \<and> etv_dev r \<le> etv_dev p \<and> etv_dev p < etv_dev r + 1000
             \<and> etv_revenue r
                 = (if on_loan p then 0
                    else 1000 * \<lfloor>(etv_current r - real_of_int (paid_fee r)) / 1000\<rfloor>)
             \<and> paid_fee r
                 = (case find (\<lambda>a. acq_player_id a = player_id p) acqs of
                      None \<Rightarrow> 0 | Some a \<Rightarrow> acq_paid_fee a)
             \<and> value_added r
                 = (if on_loan p then 0
                    else case (market_value p, find (\<lambda>a. acq_player_id a = player_id p) acqs) of
                           (Some m, Some a) \<Rightarrow> m - acq_starting_market_value a | _ \<Rightarrow> 0)
             \<and> market_value r = market_value p
             \<and> months_left r
                 = map_option (\<lambda>x. (year now - year x) * 12 + month now - month x)
                     (if on_loan p then loan_end p else contract_end p)"
    unfolding r
    using floor_thousand_bounds [of "etv_current p"] floor_thousand_bounds [of "etv_dev p"]
    by (simp only: row_fields row_money)
  with a p show ?thesis by blast
qed

theorem monetary_normalisation_witness:
  "PlayerAlerts_preprocess demo_team demo_run_date = Inr demo_rows
   \<and> demo_rows ! 0 \<in> set demo_rows
   \<and> etv_current (demo_rows ! 0) = 12000
   \<and> (\<exists>acqs. preprocess_transfers demo_team = Some acqs \<and>
         (\<exists>p \<in> set (squad demo_team). player_id (demo_rows ! 0) = player_id p
            \<and> etv_current (demo_rows ! 0) \<le> etv_current p))"
proof -
  have m: "demo_rows ! 0 \<in> set demo_rows" and e: "etv_current (demo_rows ! 0) = 12000"
    by (simp_all add: demo_eval)
  from monetary_normalisation [OF demo_preprocess m] demo_preprocess m e show ?thesis
    by blast
qed


section \<open>Squad insights\<close>

lemma attribute_goals:
  "m \<in> set (set_match_team_attributes team) \<Longrightarrow> goals_conceded m = goals_scored m"
  by (auto simp: set_match_team_attributes_def Let_def)

lemma preprocessed_points:
  assumes "m \<in> set (preprocess_matches (set_match_team_attributes team))"
  shows "points m = Some 1" "goals_conceded m = goals_scored m"
  using assms attribute_goals [of _ team]
  by (auto simp: preprocess_matches_def match_points_def Let_def
        match_team_attribute.defs match_row.defs)

text \<open>
  C9. Every record of \<open>match_team_attributes\<close> takes \<open>goals_conceded\<close> from the field it
  takes \<open>goals_scored\<close> from, the team's own goals, so the two are equal. Hence the
  performance insights give every match one point, and whenever they return a result it
  reports no match won, no match lost and every match drawn.
\<close>

theorem goals_conceded_equals_scored:
  assumes "SquadPerformanceInsights_insights team = Inr r"
  shows "(\<forall>m \<in> set (set_match_team_attributes team). goals_conceded m = goals_scored m)
         \<and> (\<exists>matches sq. SquadPerformanceInsights_init team = Inr (matches, sq)
               \<and> length matches = length (match_sheets team)
               \<and> (\<forall>m \<in> set matches. points m = Some 1))
         \<and> matches_won r = 0 \<and> matches_lost r = 0
         \<and> matches_drawn r = length (match_sheets team)
         \<and> pi_goals_conceded r = pi_goals_scored r"
proof -
  define ms where "ms = preprocess_matches (set_match_team_attributes team)"
  from assms obtain sq where init: "SquadPerformanceInsights_init team = Inr (ms, sq)"
    and res: "get_team_performance_insights ms = Inr r"
    by (auto simp: SquadPerformanceInsights_insights_def SquadPerformanceInsights_init_def ms_def
          split: sum.splits if_splits)
  have len: "length ms = length (match_sheets team)"
    by (simp add: ms_def preprocess_matches_def set_match_team_attributes_def)
  have pts: "\<forall>m \<in> set ms. points m = Some 1"
    and gls: "\<forall>m \<in> set ms. goals_conceded m = goals_scored m"
    using preprocessed_points [of _ team] by (auto simp: ms_def)
  from pts have f3: "filter (\<lambda>m. points m = Some 3) ms = []"
    and f0: "filter (\<lambda>m. points m = Some 0) ms = []"
    and f1: "filter (\<lambda>m. points m = Some 1) ms = ms"
    by (auto simp: filter_empty_conv intro: filter_True)
  from gls have sums: "map goals_conceded ms = map goals_scored ms"
    by simp
  from res have "matches_won r = 0 \<and> matches_lost r = 0 \<and> matches_drawn r = length ms
         \<and> pi_goals_conceded r = pi_goals_scored r"
    by (auto simp: get_team_performance_insights_def f3 f0 f1 sums split: sum.splits prod.splits)
  with init len pts attribute_goals [of _ team] show ?thesis
    by auto
qed

theorem goals_conceded_equals_scored_witness:
  "SquadPerformanceInsights_insights demo_team
     = Inr \<lparr>primary_formation = ''4-3-3'', secondary_formation = ''4-3-3'',
            pi_goals_scored = 2, pi_goals_conceded = 2,
            matches_won = 0, matches_drawn = 1, matches_lost = 0,
            goals_scored_per_game = Fin 2, goals_conceded_per_game = Fin 2,
            total_points = 1, points_per_game = Fin 1\<rparr>
   \<and> goals (homeTeam (match_sheets demo_team ! 0)) = 2
   \<and> goals (awayTeam (match_sheets demo_team ! 0)) = 0
   \<and> map goals_conceded (set_match_team_attributes demo_team) = [2]"
proof -
  have e: "SquadPerformanceInsights_insights demo_team
     = Inr \<lparr>primary_formation = ''4-3-3'', secondary_formation = ''4-3-3'',
            pi_goals_scored = 2, pi_goals_conceded = 2,
            matches_won = 0, matches_drawn = 1, matches_lost = 0,
            goals_scored_per_game = Fin 2, goals_conceded_per_game = Fin 2,
            total_points = 1, points_per_game = Fin 1\<rparr>"
    by (simp add: demo_eval position_eval insights_eval)
  have g: "goals (homeTeam (match_sheets demo_team ! 0)) = 2"
    "goals (awayTeam (match_sheets demo_team ! 0)) = 0"
    "set_match_team_attributes demo_team \<noteq> []"
    by (simp_all add: demo_eval)
  from goals_conceded_equals_scored [OF e] have
    "\<forall>m \<in> set (set_match_team_attributes demo_team). goals_conceded m = goals_scored m"
    by blast
  hence "map goals_conceded (set_match_team_attributes demo_team)
           = map goals_scored (set_match_team_attributes demo_team)"
    by simp
  also have "\<dots> = [2]" by (simp add: demo_eval)
  finally show ?thesis using e g by simp
qed

text \<open>
  A team whose only transfer is an inbound loan: the transfer frame is not empty, no inbound
  transfer remains once loans are excluded, and \<open>analyze_inbound\<close> raises ZeroDivisionError.
\<close>

theorem empty_denominator_counterexample:
  "transfers loan_team \<noteq> []
   \<and> SquadTransferInsights_preprocess loan_team
       = Inr [\<lparr>tr_fee = 0, tr_market_value = 300000, tr_is_loan = True, incoming = True\<rparr>]
   \<and> SquadTransferInsights_analyze_inbound loan_team = Inl ZeroDivisionError"
  by (simp add: demo_eval insights_eval)

text \<open>
  C8, as the code has it. A position group without players gets a defined benchmark, filled
  with zeros. The inbound transfer insights do not guard their ratio: \<open>analyze_inbound\<close>
  raises ZeroDivisionError exactly when no inbound transfer is left after excluding loans,
  and otherwise returns a result whose \<open>percentage_free\<close> is the share of free transfers.
\<close>

theorem empty_collections:
  assumes "get_position_group sq g True = []"
    and "filter (\<lambda>t. \<not> tr_is_loan t) (filter incoming data) \<noteq> []"
  shows "set_position_benchmarks sq g
           = \<lparr>b_group = g, starter_level = 0, starter_potential = 0, back_up_level = 0,
              back_up_potential = 0, secondary_back_up_level = 0,
              secondary_back_up_potential = 0\<rparr>
         \<and> (\<exists>r. analyze_inbound data = Inr r \<and>
               percentage_free r
                 = real (length (filter (\<lambda>t. tr_fee t = 0)
                                   (filter (\<lambda>t. \<not> tr_is_loan t) (filter incoming data))))
                     / real (length (filter (\<lambda>t. \<not> tr_is_loan t) (filter incoming data))))
         \<and> (\<forall>d. (analyze_inbound d = Inl ZeroDivisionError)
                  = (filter (\<lambda>t. \<not> tr_is_loan t) (filter incoming d) = []))"
proof -
  have b: "set_position_benchmarks sq g
           = \<lparr>b_group = g, starter_level = 0, starter_potential = 0, back_up_level = 0,
              back_up_potential = 0, secondary_back_up_level = 0,
              secondary_back_up_potential = 0\<rparr>"
    using assms(1) by (simp add: set_position_benchmarks_def)
  have r: "\<exists>r. analyze_inbound data = Inr r \<and>
               percentage_free r
                 = real (length (filter (\<lambda>t. tr_fee t = 0)
                                   (filter (\<lambda>t. \<not> tr_is_loan t) (filter incoming data))))
                     / real (length (filter (\<lambda>t. \<not> tr_is_loan t) (filter incoming data)))"
    using assms(2) by (auto simp add: analyze_inbound_def Let_def simp del: filter_filter split: list.splits)
  have z: "\<forall>d. (analyze_inbound d = Inl ZeroDivisionError)
                  = (filter (\<lambda>t. \<not> tr_is_loan t) (filter incoming d) = [])"
    by (simp add: analyze_inbound_def Let_def split: list.splits)
  from b r z show ?thesis by blast
qed

theorem empty_collections_witness:
  "get_position_group demo_frame GOALKEEPER True = []
   \<and> SquadTransferInsights_preprocess demo_team
       = Inr [\<lparr>tr_fee = 1500, tr_market_value = 2000, tr_is_loan = False, incoming = True\<rparr>]
   \<and> starter_level (set_position_benchmarks demo_frame GOALKEEPER) = 0
   \<and> (\<exists>r. analyze_inbound [\<lparr>tr_fee = 1500, tr_market_value = 2000, tr_is_loan = False, incoming = True\<rparr>] = Inr r
          \<and> percentage_free r = 0)"
proof -
  have g: "get_position_group demo_frame GOALKEEPER True = []"
    by (simp add: demo_eval position_eval)
  have t: "SquadTransferInsights_preprocess demo_team
       = Inr [\<lparr>tr_fee = 1500, tr_market_value = 2000, tr_is_loan = False, incoming = True\<rparr>]"
    by (simp add: demo_eval insights_eval)
  have n: "filter (\<lambda>t. \<not> tr_is_loan t)
             (filter incoming [\<lparr>tr_fee = 1500, tr_market_value = 2000, tr_is_loan = False, incoming = True\<rparr>]) \<noteq> []"
    by simp
  from empty_collections [OF g n] g t show ?thesis
    by simp
qed


section \<open>Position alerts\<close>

subsection \<open>Ranks\<close>















subsection \<open>The alert columns\<close>

























end
